theory Spec2Isabelle
  imports Complex_Main "HOL-Library.Word" "HOL-Library.Sublist"
begin

section \<open>JavaScript strings\<close>

text \<open>
  A JavaScript string is a sequence of UTF-16 code units. String literals of
  \<^verbatim>\<open>script.js\<close> that are plain ASCII are written with \<open>js\<close>.
\<close>

type_synonym jschar = "16 word"
type_synonym jsstring = "jschar list"

definition js :: "string \<Rightarrow> jsstring" where
  "js s = map of_char s"

text \<open>
  The code units that \<^verbatim>\<open>String.prototype.trim\<close> strips and that the regular
  expression escape \<^verbatim>\<open>\s\<close> matches: WhiteSpace and LineTerminator of ECMAScript.
\<close>

definition is_js_space :: "jschar \<Rightarrow> bool" where
  "is_js_space c \<longleftrightarrow>
     (0x09 \<le> c \<and> c \<le> 0x0D) \<or> c = 0x20 \<or> c = 0xA0 \<or> c = 0x1680 \<or>
     (0x2000 \<le> c \<and> c \<le> 0x200A) \<or> c = 0x2028 \<or> c = 0x2029 \<or> c = 0x202F \<or>
     c = 0x205F \<or> c = 0x3000 \<or> c = 0xFEFF"

definition trim :: "jsstring \<Rightarrow> jsstring" where
  "trim s = rev (dropWhile is_js_space (rev (dropWhile is_js_space s)))"

text \<open>
  Number-to-string conversion of a non-negative integer, as the template literal
  \<^verbatim>\<open>${resp.status}\<close> performs it: the decimal digits.
\<close>

function number_to_string :: "nat \<Rightarrow> jsstring" where
  "number_to_string n =
     (if n < 10 then [of_nat (48 + n)]
      else number_to_string (n div 10) @ [of_nat (48 + n mod 10)])"
  by pat_completeness auto
termination
  by (relation "measure id") auto

declare number_to_string.simps [simp del]

text \<open>
  Reading a string of decimal digits back as a number; with it the properties of
  \<open>number_to_string\<close> say that the string is the decimal numeral of the number.
\<close>

definition is_digit :: "jschar \<Rightarrow> bool" where
  "is_digit c \<longleftrightarrow> 0x30 \<le> c \<and> c \<le> 0x39"

definition decimal_value :: "jsstring \<Rightarrow> nat" where
  "decimal_value s = foldl (\<lambda>a c. 10 * a + (unat c - 48)) 0 s"

section \<open>The regular expression of the name heuristic\<close>

text \<open>
  \<^verbatim>\<open>/\b(?:my name is|i'm|i am)\s+([A-Z][a-z]+)\b/i\<close> is built from literal
  characters, character ranges, \<^verbatim>\<open>\s\<close>, \<^verbatim>\<open>\b\<close>, alternation, one
  capturing group and the greedy quantifier \<^verbatim>\<open>+\<close> on one-character atoms.
  The matcher below is the backtracking matcher of ECMAScript restricted to these
  constructs, with the \<^verbatim>\<open>i\<close> flag set and the \<^verbatim>\<open>u\<close> flag not set.
\<close>

datatype cset = Lit jschar | Range jschar jschar | Space

datatype regex =
    Eps
  | Atom cset
  | Plus cset
  | WordBoundary
  | Seq regex regex
  | Alt regex regex
  | Group regex

text \<open>
  Canonicalize of ECMAScript for a pattern without the \<^verbatim>\<open>u\<close> flag maps a code
  unit to its upper case. It is written out for ASCII; a code unit from 128 on is
  never mapped below 128, so it cannot become equal to the canonical form of any
  character of this pattern, all of which are ASCII.
\<close>

definition canonicalize :: "jschar \<Rightarrow> jschar" where
  "canonicalize c = (if 0x61 \<le> c \<and> c \<le> 0x7A then c - 0x20 else c)"

definition range_units :: "jschar \<Rightarrow> jschar \<Rightarrow> jschar list" where
  "range_units lo hi = map of_nat [unat lo ..< Suc (unat hi)]"

text \<open>
  With the \<^verbatim>\<open>i\<close> flag a character matches a set when some member of the set has
  the same canonical form.
\<close>

fun cset_match :: "cset \<Rightarrow> jschar \<Rightarrow> bool" where
  "cset_match (Lit a) c \<longleftrightarrow> canonicalize a = canonicalize c"
| "cset_match (Range lo hi) c \<longleftrightarrow>
     list_ex (\<lambda>a. canonicalize a = canonicalize c) (range_units lo hi)"
| "cset_match Space c \<longleftrightarrow> is_js_space c"

definition is_word_char :: "jschar \<Rightarrow> bool" where
  "is_word_char c \<longleftrightarrow>
     (0x30 \<le> c \<and> c \<le> 0x39) \<or> (0x41 \<le> c \<and> c \<le> 0x5A) \<or>
     (0x61 \<le> c \<and> c \<le> 0x7A) \<or> c = 0x5F"

text \<open>IsWordChar at the positions \<open>i - 1\<close> and \<open>i\<close>: false outside the input.\<close>

definition word_before :: "jsstring \<Rightarrow> nat \<Rightarrow> bool" where
  "word_before s i \<longleftrightarrow> 0 < i \<and> i - 1 < length s \<and> is_word_char (s ! (i - 1))"

definition word_at :: "jsstring \<Rightarrow> nat \<Rightarrow> bool" where
  "word_at s i \<longleftrightarrow> i < length s \<and> is_word_char (s ! i)"

text \<open>
  A match state is the end index reached and the span of capture group 1, if the
  group has matched. \<open>rmatch\<close> lists the states a pattern can reach from a state, in
  the order in which backtracking tries them.
\<close>

type_synonym mstate = "nat \<times> (nat \<times> nat) option"

fun rmatch :: "jsstring \<Rightarrow> regex \<Rightarrow> mstate \<Rightarrow> mstate list" where
  "rmatch s Eps st = [st]"
| "rmatch s (Atom a) st =
     (if fst st < length s \<and> cset_match a (s ! fst st) then [(Suc (fst st), snd st)] else [])"
| "rmatch s (Plus a) st =
     map (\<lambda>k. (fst st + k, snd st))
       (rev [1 ..< Suc (length (takeWhile (cset_match a) (drop (fst st) s)))])"
| "rmatch s WordBoundary st =
     (if word_before s (fst st) \<noteq> word_at s (fst st) then [st] else [])"
| "rmatch s (Seq r1 r2) st = concat (map (rmatch s r2) (rmatch s r1 st))"
| "rmatch s (Alt r1 r2) st = rmatch s r1 st @ rmatch s r2 st"
| "rmatch s (Group r) st =
     map (\<lambda>st'. (fst st', Some (fst st, fst st'))) (rmatch s r st)"

fun literal :: "jsstring \<Rightarrow> regex" where
  "literal [] = Eps"
| "literal (c # cs) = Seq (Atom (Lit c)) (literal cs)"

definition name_regex :: regex where
  "name_regex =
     Seq WordBoundary
    (Seq (Alt (literal (js ''my name is''))
         (Alt (literal (js ''i'm'')) (literal (js ''i am''))))
    (Seq (Plus Space)
    (Seq (Group (Seq (Atom (Range 0x41 0x5A)) (Plus (Range 0x61 0x7A))))
         WordBoundary)))"

text \<open>
  \<^verbatim>\<open>text.match(re)\<close> for a pattern without the \<^verbatim>\<open>g\<close> flag: the first start
  index at which the pattern matches, and there the first state the backtracking
  reaches. The result array holds the matched text and capture group 1
  (\<open>None\<close> is \<^verbatim>\<open>undefined\<close>); no match is \<^verbatim>\<open>null\<close>, here \<open>None\<close>.
\<close>

definition substring :: "jsstring \<Rightarrow> nat \<Rightarrow> nat \<Rightarrow> jsstring" where
  "substring s a b = take (b - a) (drop a s)"

definition string_match :: "jsstring \<Rightarrow> regex \<Rightarrow> (jsstring \<times> jsstring option) option" where
  "string_match s r =
     (case find (\<lambda>i. rmatch s r (i, None) \<noteq> []) [0 ..< Suc (length s)] of
        None \<Rightarrow> None
      | Some i \<Rightarrow>
          (case hd (rmatch s r (i, None)) of
             (e, cap) \<Rightarrow>
               Some (substring s i e,
                     case cap of None \<Rightarrow> None | Some (a, b) \<Rightarrow> Some (substring s a b))))"

section \<open>Values and the conversation state\<close>

text \<open>
  A value produced by \<^verbatim>\<open>JSON.parse\<close>. A number is the rational that the finite
  double denotes (so \<open>-0\<close> is \<open>0\<close>). An object is the list of its properties,
  each key once. \<^verbatim>\<open>undefined\<close> is \<open>None\<close> of \<open>json option\<close>.
\<close>

datatype json =
    JNull
  | JBool bool
  | JNum rat
  | JStr jsstring
  | JArr "json list"
  | JObj "(jsstring \<times> json) list"

text \<open>ToBoolean, as \<^verbatim>\<open>!aiContent\<close> applies it.\<close>

fun truthy :: "json \<Rightarrow> bool" where
  "truthy JNull = False"
| "truthy (JBool b) = b"
| "truthy (JNum r) = (r \<noteq> 0)"
| "truthy (JStr s) = (s \<noteq> [])"
| "truthy (JArr xs) = True"
| "truthy (JObj kvs) = True"

definition truthy_opt :: "json option \<Rightarrow> bool" where
  "truthy_opt v = (case v of None \<Rightarrow> False | Some x \<Rightarrow> truthy x)"

text \<open>
  Reading the property named \<open>k\<close> of a value, for the names \<^verbatim>\<open>choices\<close>,
  \<^verbatim>\<open>message\<close> and \<^verbatim>\<open>content\<close> that the handler reads: only an object can own
  them. \<open>get_index0\<close> is \<^verbatim>\<open>v[0]\<close>, which an array, a string and an object with
  the key \<^verbatim>\<open>"0"\<close> answer.
\<close>

fun get_field :: "jsstring \<Rightarrow> json \<Rightarrow> json option" where
  "get_field k (JObj kvs) = map_of kvs k"
| "get_field k v = None"

fun get_index0 :: "json \<Rightarrow> json option" where
  "get_index0 (JArr xs) = (case xs of [] \<Rightarrow> None | x # _ \<Rightarrow> Some x)"
| "get_index0 (JStr s) = (case s of [] \<Rightarrow> None | c # _ \<Rightarrow> Some (JStr [c]))"
| "get_index0 (JObj kvs) = map_of kvs (js ''0'')"
| "get_index0 v = None"

text \<open>Optional chaining \<^verbatim>\<open>v?.p\<close>: \<^verbatim>\<open>undefined\<close> when \<open>v\<close> is \<^verbatim>\<open>undefined\<close> or \<^verbatim>\<open>null\<close>.\<close>

fun opt_chain :: "json option \<Rightarrow> (json \<Rightarrow> json option) \<Rightarrow> json option" where
  "opt_chain None f = None"
| "opt_chain (Some JNull) f = None"
| "opt_chain (Some v) f = f v"

text \<open>\<^verbatim>\<open>data?.choices?.[0]?.message?.content\<close>\<close>

definition first_choice_content :: "json \<Rightarrow> json option" where
  "first_choice_content data =
     opt_chain (opt_chain (opt_chain (opt_chain (Some data)
       (get_field (js ''choices''))) get_index0)
       (get_field (js ''message''))) (get_field (js ''content''))"

text \<open>
  ToString of a parsed value, as the assignment to \<^verbatim>\<open>textContent\<close> applies it,
  raises a TypeError exactly when it meets an object with an own property
  \<^verbatim>\<open>toString\<close>: a parsed value is never callable, so that property hides
  \<^verbatim>\<open>Object.prototype.toString\<close>, and \<^verbatim>\<open>valueOf\<close> does not give a primitive. An
  array is joined, which converts its elements.
\<close>

fun to_string_throws :: "json \<Rightarrow> bool" where
  "to_string_throws (JObj kvs) = (map_of kvs (js ''toString'') \<noteq> None)"
| "to_string_throws (JArr xs) = list_ex to_string_throws xs"
| "to_string_throws v = False"

text \<open>A value inside a template literal; \<open>None\<close> is \<^verbatim>\<open>undefined\<close>.\<close>

definition template_value :: "jsstring option \<Rightarrow> jsstring" where
  "template_value v = (case v of None \<Rightarrow> js ''undefined'' | Some x \<Rightarrow> x)"

datatype role = System | User | Assistant

record turn =
  role :: role
  content :: json

text \<open>
  The children of \<^verbatim>\<open>chatWindow\<close>: a message bubble (the class given to
  \<^verbatim>\<open>appendMessage\<close>, the name label if there is one, the value assigned to
  \<^verbatim>\<open>textContent\<close>), the latest-question line with its text, and the thinking
  indicator.
\<close>

datatype node =
    Message jsstring "jsstring option" json
  | LatestQuestion jsstring
  | Thinking

datatype error = Error (message: jsstring)

text \<open>
  The TypeError of a failed ToString. Its message is chosen by the JavaScript
  engine; the wording of the V8 engine is taken.
\<close>

definition conversion_error :: error where
  "conversion_error = Error (js ''Cannot convert object to primitive value'')"

record request =
  req_url :: jsstring
  req_method :: jsstring
  req_headers :: "(jsstring \<times> jsstring) list"
  req_model :: jsstring
  req_messages :: "turn list"
  req_max_tokens :: nat

text \<open>
  What the remote service does with the one call of a cycle: \<^verbatim>\<open>fetch\<close> rejects,
  or resolves to a response. Reading the body as text or as JSON can reject too.
\<close>

record response =
  resp_ok :: bool
  resp_status :: nat
  resp_text :: "error + jsstring"
  resp_json :: "error + json"

datatype fetch_result = Rejected error | Resolved response

record state =
  messages :: "turn list"
  userName :: "jsstring option"
  chatWindow :: "node list"
  input_value :: jsstring
  input_disabled :: bool
  input_focused :: bool
  fetch_calls :: "request list"
  console_errors :: "error list"

section \<open>The chat client\<close>

definition SYSTEM_PROMPT :: jsstring where
  "SYSTEM_PROMPT =
     js ''You are a helpful assistant that ONLY answers questions about L'Or'' @
     [0xE9] @
     js ''al products, routines, and related beauty topics (skincare, haircare, '' @
     js ''makeup, product recommendations, ingredients, usage, and routines). '' @
     js ''Always be concise, accurate, and polite. Ask clarifying questions '' @
     js ''when needed. If a user asks anything unrelated to L'Or'' @
     [0xE9] @
     js ''al or general beauty topics, politely refuse with: '' @
     [0x22] @
     js ''Sorry '' @
     [0x2014] @
     js '' I can only help with L'Or'' @
     [0xE9] @
     js ''al products, routines, and related beauty questions.'' @
     [0x22] @
     js '' Do not provide medical, legal, or diagnostic advice; instead direct '' @
     js ''users to consult a qualified professional.''"

definition initialText :: jsstring where
  "initialText =
     [0xD83D, 0xDC4B] @
     js '' Hello! How can I help you with L'Or'' @
     [0xE9] @
     js ''al products or routines today?''"

text \<open>
  \<^verbatim>\<open>appendMessage(text, className, meta)\<close>; \<open>meta_name\<close> is \<^verbatim>\<open>meta.name\<close>, and the
  name label is created only when it is truthy. This is the function for a text
  that converts to a string, as every string does. For another text the
  assignment to \<^verbatim>\<open>textContent\<close> raises before anything is attached to the chat
  window; the one caller with such a text, in \<open>try_block\<close>, tests
  \<open>to_string_throws\<close> first.
\<close>

definition appendMessage :: "json \<Rightarrow> jsstring \<Rightarrow> jsstring option \<Rightarrow> state \<Rightarrow> state" where
  "appendMessage text className meta_name s =
     s\<lparr>chatWindow := chatWindow s @
         [Message className
            (case meta_name of None \<Rightarrow> None | Some n \<Rightarrow> if n = [] then None else Some n)
            text]\<rparr>"

fun is_latest_question :: "node \<Rightarrow> bool" where
  "is_latest_question (LatestQuestion q) = True"
| "is_latest_question n = False"

text \<open>Removing the first node that \<^verbatim>\<open>querySelector\<close> finds, if there is one.\<close>

fun remove_first :: "('a \<Rightarrow> bool) \<Rightarrow> 'a list \<Rightarrow> 'a list" where
  "remove_first P [] = []"
| "remove_first P (x # xs) = (if P x then xs else x # remove_first P xs)"

definition showLatestQuestion :: "jsstring \<Rightarrow> state \<Rightarrow> state" where
  "showLatestQuestion text s =
     s\<lparr>chatWindow := remove_first is_latest_question (chatWindow s) @
         [LatestQuestion (js ''Latest question: '' @ text)]\<rparr>"

text \<open>\<open>None\<close> is the case that \<^verbatim>\<open>secrets.js\<close> has not defined the key.\<close>

definition OPENAI_KEY_PRESENT :: "jsstring option \<Rightarrow> bool" where
  "OPENAI_KEY_PRESENT OPENAI_API_KEY =
     (case OPENAI_API_KEY of None \<Rightarrow> False | Some k \<Rightarrow> k \<noteq> [])"

text \<open>
  The state once the script has loaded: the system message, then the greeting,
  which is also shown. The page is taken to hold the three required elements and
  an empty chat window.
\<close>

definition init_state :: state where
  "init_state =
     (let s0 = \<lparr>messages = [\<lparr>role = System, content = JStr SYSTEM_PROMPT\<rparr>],
                userName = None, chatWindow = [], input_value = [],
                input_disabled = False, input_focused = False, fetch_calls = [],
                console_errors = []\<rparr>;
          s1 = appendMessage (JStr initialText) (js ''ai'') None s0
      in s1\<lparr>messages := messages s1 @ [\<lparr>role = Assistant, content = JStr initialText\<rparr>]\<rparr>)"

subsection \<open>The submit handler\<close>

text \<open>Lines 85 to 90: the name heuristic.\<close>

definition capture_name :: "jsstring \<Rightarrow> state \<Rightarrow> state" where
  "capture_name text s =
     (case string_match text name_regex of
        None \<Rightarrow> s
      | Some nameMatch \<Rightarrow>
          s\<lparr>userName := snd nameMatch,
            messages := messages s @
              [\<lparr>role = System,
                content = JStr (js ''User's name is '' @ template_value (snd nameMatch) @ js ''.'')\<rparr>]\<rparr>)"

text \<open>
  Lines 93 to 108: the user's bubble and turn, the input cleared and disabled, the
  latest question, the thinking indicator. The result holds the position of the
  thinking indicator among the children of the chat window, by which the handler
  later removes it.
\<close>

definition begin_cycle :: "jsstring \<Rightarrow> state \<Rightarrow> nat \<times> state" where
  "begin_cycle text s =
     (let s1 = appendMessage (JStr text) (js ''user'')
                 (Some (case userName s of None \<Rightarrow> js ''You''
                        | Some n \<Rightarrow> if n = [] then js ''You'' else n)) s;
          s2 = s1\<lparr>messages := messages s1 @ [\<lparr>role = User, content = JStr text\<rparr>]\<rparr>;
          s3 = s2\<lparr>input_value := [], input_disabled := True\<rparr>;
          s4 = showLatestQuestion text s3;
          thinking = length (chatWindow s4)
      in (thinking, s4\<lparr>chatWindow := chatWindow s4 @ [Thinking]\<rparr>))"

definition remove_at :: "nat \<Rightarrow> 'a list \<Rightarrow> 'a list" where
  "remove_at i xs = take i xs @ drop (Suc i) xs"

definition attached :: "nat \<Rightarrow> state \<Rightarrow> bool" where
  "attached thinking s \<longleftrightarrow>
     thinking < length (chatWindow s) \<and> chatWindow s ! thinking = Thinking"

definition completion_request :: "jsstring option \<Rightarrow> state \<Rightarrow> request" where
  "completion_request OPENAI_API_KEY s =
     \<lparr>req_url = js ''https://api.openai.com/v1/chat/completions'',
      req_method = js ''POST'',
      req_headers =
        [(js ''Content-Type'', js ''application/json''),
         (js ''Authorization'', js ''Bearer '' @ template_value OPENAI_API_KEY)],
      req_model = js ''gpt-4o'',
      req_messages = messages s,
      req_max_tokens = 600\<rparr>"

text \<open>
  Lines 110 to 147, the body of \<^verbatim>\<open>try\<close>: \<open>Inl\<close> is a throw, with the state reached
  when it happens. The call of \<^verbatim>\<open>fetch\<close> is recorded in \<open>fetch_calls\<close>; the body
  of the request is recorded before \<^verbatim>\<open>JSON.stringify\<close>. The last throw is the
  one of \<^verbatim>\<open>appendMessage\<close> at line 146, for a content that does not convert to a
  string: the thinking indicator is gone by then, and nothing has been pushed.
\<close>

definition try_block ::
  "jsstring option \<Rightarrow> fetch_result \<Rightarrow> nat \<Rightarrow> state \<Rightarrow> (error + unit) \<times> state" where
  "try_block OPENAI_API_KEY net thinking s =
     (if \<not> OPENAI_KEY_PRESENT OPENAI_API_KEY then
        (Inl (Error (js ''OpenAI API key not found. Create secrets.js and define OPENAI_API_KEY.'')), s)
      else
        let s1 = s\<lparr>fetch_calls := fetch_calls s @ [completion_request OPENAI_API_KEY s]\<rparr> in
        case net of
          Rejected err \<Rightarrow> (Inl err, s1)
        | Resolved resp \<Rightarrow>
            if \<not> resp_ok resp then
              (case resp_text resp of
                 Inl err \<Rightarrow> (Inl err, s1)
               | Inr errText \<Rightarrow>
                   (Inl (Error (js ''API error: '' @ number_to_string (resp_status resp) @
                                js '' '' @ errText)), s1))
            else
              (case resp_json resp of
                 Inl err \<Rightarrow> (Inl err, s1)
               | Inr data \<Rightarrow>
                   (case first_choice_content data of
                      None \<Rightarrow> (Inl (Error (js ''No content in API response.'')), s1)
                    | Some aiContent \<Rightarrow>
                        if \<not> truthy aiContent then
                          (Inl (Error (js ''No content in API response.'')), s1)
                        else
                          let s2 = s1\<lparr>chatWindow := remove_at thinking (chatWindow s1)\<rparr> in
                          if to_string_throws aiContent then (Inl conversion_error, s2)
                          else
                            let s3 = appendMessage aiContent (js ''ai'') None s2
                            in (Inr (),
                                s3\<lparr>messages := messages s3 @
                                     [\<lparr>role = Assistant, content = aiContent\<rparr>]\<rparr>))))"

text \<open>Lines 148 to 151.\<close>

definition catch_block :: "error \<Rightarrow> nat \<Rightarrow> state \<Rightarrow> state" where
  "catch_block err thinking s =
     (let s1 = (if attached thinking s
                then s\<lparr>chatWindow := remove_at thinking (chatWindow s)\<rparr> else s);
          s2 = appendMessage (JStr (js ''Error: '' @ message err)) (js ''ai'') None s1
      in s2\<lparr>console_errors := console_errors s2 @ [err]\<rparr>)"

text \<open>Lines 152 to 155.\<close>

definition finally_block :: "state \<Rightarrow> state" where
  "finally_block s = s\<lparr>input_disabled := False, input_focused := True\<rparr>"

text \<open>
  One submit event, from the click to the end of \<^verbatim>\<open>finally\<close>, taken as a whole:
  \<open>net\<close> is what the remote service answers if it is called, and the handler is
  taken to run to its end without another event in between. The text is read
  from the input field.
\<close>

definition submit :: "jsstring option \<Rightarrow> fetch_result \<Rightarrow> state \<Rightarrow> state" where
  "submit OPENAI_API_KEY net s =
     (let text = trim (input_value s) in
      if text = [] then s
      else
        case begin_cycle text (capture_name text s) of
          (thinking, s1) \<Rightarrow>
            finally_block
              (case try_block OPENAI_API_KEY net thinking s1 of
                 (Inr u, s2) \<Rightarrow> s2
               | (Inl err, s2) \<Rightarrow> catch_block err thinking s2))"

text \<open>
  A session: the user types a text and submits it, again and again, each time
  with some answer of the remote service.
\<close>

fun run :: "jsstring option \<Rightarrow> (jsstring \<times> fetch_result) list \<Rightarrow> state \<Rightarrow> state" where
  "run OPENAI_API_KEY [] s = s"
| "run OPENAI_API_KEY ((raw, net) # evs) s =
     run OPENAI_API_KEY evs (submit OPENAI_API_KEY net (s\<lparr>input_value := raw\<rparr>))"

section \<open>Properties of the submit handler\<close>

subsection \<open>Lists\<close>

lemma remove_at_last: "remove_at (length xs) (xs @ [y]) = xs"
  by (simp add: remove_at_def)

lemma remove_first_snoc: "\<not> P y \<Longrightarrow> remove_first P (xs @ [y]) = remove_first P xs @ [y]"
  by (induction xs) auto

subsection \<open>The name pattern\<close>

text \<open>
  Every match of the pattern passes through its capturing group, so capture
  group 1 of a match result is never \<^verbatim>\<open>undefined\<close>; and the empty text has no
  match.
\<close>

lemma rmatch_Seq_mem: "x \<in> set (rmatch s (Seq r1 r2) st) \<Longrightarrow> \<exists>st'. x \<in> set (rmatch s r2 st')"
  by auto

lemma rmatch_Group_boundary:
  "x \<in> set (rmatch s (Seq (Group r) WordBoundary) st) \<Longrightarrow> snd x \<noteq> None"
  by (auto split: if_splits)

lemma name_regex_captures: "x \<in> set (rmatch s name_regex st) \<Longrightarrow> snd x \<noteq> None"
  unfolding name_regex_def
  by (blast dest: rmatch_Seq_mem rmatch_Group_boundary)

lemma string_match_name_captures:
  assumes "string_match inp name_regex = Some nameMatch"
  shows "\<exists>X. snd nameMatch = Some X"
proof -
  from assms obtain i where ne: "rmatch inp name_regex (i, None) \<noteq> []"
    and m: "(case hd (rmatch inp name_regex (i, None)) of
             (e, cap) \<Rightarrow>
               Some (substring inp i e,
                     case cap of None \<Rightarrow> None | Some (a, b) \<Rightarrow> Some (substring inp a b))) =
            Some nameMatch"
    by (auto simp add: string_match_def find_Some_iff split: option.splits)
  obtain e cap where h: "hd (rmatch inp name_regex (i, None)) = (e, cap)"
    by (cases "hd (rmatch inp name_regex (i, None))")
  have "(e, cap) \<in> set (rmatch inp name_regex (i, None))"
    using ne h hd_in_set by metis
  then have "cap \<noteq> None"
    using name_regex_captures by fastforce
  with m h show ?thesis
    by (auto split: option.splits)
qed

lemma string_match_empty: "string_match [] name_regex = None"
  by code_simp

subsection \<open>The steps of the handler\<close>

text \<open>
  Whether the body of \<^verbatim>\<open>try\<close> throws, and with which error, depends on the key
  and on the answer of the remote service alone; \<open>try_block_throw_iff\<close> lists the
  ways in which it throws.
\<close>

lemma messages_capture_name:
  "messages (capture_name text s) = messages s \<or>
   (\<exists>n. messages (capture_name text s) = messages s @ [\<lparr>role = System, content = JStr n\<rparr>])"
  by (simp add: capture_name_def split: option.splits)

lemma other_capture_name [simp]:
  "chatWindow (capture_name text s) = chatWindow s"
  "fetch_calls (capture_name text s) = fetch_calls s"
  "console_errors (capture_name text s) = console_errors s"
  by (simp_all add: capture_name_def split: option.splits)

lemma begin_cycle_eq:
  "begin_cycle text s =
     (Suc (Suc (length (remove_first is_latest_question (chatWindow s)))),
      s\<lparr>messages := messages s @ [\<lparr>role = User, content = JStr text\<rparr>],
        input_value := [], input_disabled := True,
        chatWindow := remove_first is_latest_question (chatWindow s) @
          [Message (js ''user'')
             (Some (case userName s of None \<Rightarrow> js ''You''
                    | Some n \<Rightarrow> if n = [] then js ''You'' else n)) (JStr text),
           LatestQuestion (js ''Latest question: '' @ text), Thinking]\<rparr>)"
  by (simp add: begin_cycle_def Let_def appendMessage_def showLatestQuestion_def
      remove_first_snoc js_def split: option.splits)

lemma try_block_result: "fst (try_block key net th s) = fst (try_block key net th' s')"
  by (simp add: try_block_def Let_def split: fetch_result.splits sum.splits option.splits)

lemma try_block_throw:
  "try_block key net th s = (Inl err, s') \<Longrightarrow>
     s' = s\<lparr>fetch_calls := fetch_calls s @
            (if OPENAI_KEY_PRESENT key then [completion_request key s] else [])\<rparr> \<or>
     s' = s\<lparr>fetch_calls := fetch_calls s @
            (if OPENAI_KEY_PRESENT key then [completion_request key s] else []),
          chatWindow := remove_at th (chatWindow s)\<rparr>"
  by (auto simp add: try_block_def Let_def
      split: if_splits fetch_result.splits sum.splits option.splits)

lemma try_block_return:
  "try_block key net th s = (Inr u, s') \<Longrightarrow>
     OPENAI_KEY_PRESENT key \<and>
     (\<exists>resp data aiContent. net = Resolved resp \<and> resp_ok resp \<and> resp_json resp = Inr data \<and>
        first_choice_content data = Some aiContent \<and> truthy aiContent \<and>
        \<not> to_string_throws aiContent \<and>
        s' = s\<lparr>fetch_calls := fetch_calls s @ [completion_request key s],
               chatWindow := remove_at th (chatWindow s) @ [Message (js ''ai'') None aiContent],
               messages := messages s @ [\<lparr>role = Assistant, content = aiContent\<rparr>]\<rparr>)"
  by (auto simp add: try_block_def Let_def appendMessage_def
      split: if_splits fetch_result.splits sum.splits option.splits)

lemma try_block_cases:
  obtains (throw) err where "fst (try_block key net th s) = Inl err"
  | (return) "fst (try_block key net th s) = Inr ()"
  by (cases "fst (try_block key net th s)") auto

lemma try_block_throw_iff:
  "fst (try_block key net th s) = Inl err \<longleftrightarrow>
     (\<not> OPENAI_KEY_PRESENT key \<and>
        err = Error (js ''OpenAI API key not found. Create secrets.js and define OPENAI_API_KEY.'')) \<or>
     (OPENAI_KEY_PRESENT key \<and> net = Rejected err) \<or>
     (\<exists>resp. OPENAI_KEY_PRESENT key \<and> net = Resolved resp \<and> \<not> resp_ok resp \<and>
        (resp_text resp = Inl err \<or>
         (\<exists>errText. resp_text resp = Inr errText \<and>
            err = Error (js ''API error: '' @ number_to_string (resp_status resp) @
                         js '' '' @ errText)))) \<or>
     (\<exists>resp. OPENAI_KEY_PRESENT key \<and> net = Resolved resp \<and> resp_ok resp \<and>
        (resp_json resp = Inl err \<or>
         (\<exists>data. resp_json resp = Inr data \<and> \<not> truthy_opt (first_choice_content data) \<and>
            err = Error (js ''No content in API response.'')) \<or>
         (\<exists>data aiContent. resp_json resp = Inr data \<and>
            first_choice_content data = Some aiContent \<and> truthy aiContent \<and>
            to_string_throws aiContent \<and> err = conversion_error)))"
  by (auto simp add: try_block_def Let_def truthy_opt_def
      split: fetch_result.splits sum.splits option.splits)

lemma missing_key_throws:
  "\<not> OPENAI_KEY_PRESENT key \<Longrightarrow>
   fst (try_block key net th s) =
     Inl (Error (js ''OpenAI API key not found. Create secrets.js and define OPENAI_API_KEY.''))"
  by (simp add: try_block_def)

lemma catch_block_eq:
  "chatWindow s = w @ [Thinking] \<Longrightarrow> th = length w \<Longrightarrow>
   catch_block err th s =
     s\<lparr>chatWindow := w @ [Message (js ''ai'') None (JStr (js ''Error: '' @ message err))],
       console_errors := console_errors s @ [err]\<rparr>"
  by (simp add: catch_block_def attached_def Let_def appendMessage_def remove_at_last)

lemma catch_block_detached:
  "chatWindow s = w \<Longrightarrow> th = length w \<Longrightarrow>
   catch_block err th s =
     s\<lparr>chatWindow := w @ [Message (js ''ai'') None (JStr (js ''Error: '' @ message err))],
       console_errors := console_errors s @ [err]\<rparr>"
  by (simp add: catch_block_def attached_def Let_def appendMessage_def)

lemma try_then_catch:
  assumes "try_block key net th s = (Inl err, s')"
    and "chatWindow s = w @ [Thinking]" and "th = length w"
  shows "catch_block err th s' =
     s\<lparr>fetch_calls := fetch_calls s @
         (if OPENAI_KEY_PRESENT key then [completion_request key s] else []),
       chatWindow := w @ [Message (js ''ai'') None (JStr (js ''Error: '' @ message err))],
       console_errors := console_errors s @ [err]\<rparr>"
proof -
  let ?f = "fetch_calls s @
      (if OPENAI_KEY_PRESENT key then [completion_request key s] else [])"
  from try_block_throw [OF assms(1)]
  consider (kept) "s' = s\<lparr>fetch_calls := ?f\<rparr>"
    | (removed) "s' = s\<lparr>fetch_calls := ?f, chatWindow := remove_at th (chatWindow s)\<rparr>"
    by blast
  then show ?thesis
  proof cases
    case kept
    have "catch_block err th s' =
        s'\<lparr>chatWindow := w @ [Message (js ''ai'') None (JStr (js ''Error: '' @ message err))],
           console_errors := console_errors s' @ [err]\<rparr>"
      by (rule catch_block_eq) (simp_all add: kept assms(2,3))
    then show ?thesis
      by (simp add: kept)
  next
    case removed
    have "catch_block err th s' =
        s'\<lparr>chatWindow := w @ [Message (js ''ai'') None (JStr (js ''Error: '' @ message err))],
           console_errors := console_errors s' @ [err]\<rparr>"
      by (rule catch_block_detached) (simp_all add: removed assms(2,3) remove_at_last)
    then show ?thesis
      by (simp add: removed)
  qed
qed

subsection \<open>One cycle\<close>

text \<open>
  The state after a submit of a non-empty input, on the path through \<^verbatim>\<open>catch\<close>
  and on the path without a throw.
\<close>

lemma submit_throw:
  assumes ne: "trim (input_value s) \<noteq> []"
    and thr: "fst (try_block key net th s0) = Inl err"
  shows "\<exists>lbl. submit key net s =
     (capture_name (trim (input_value s)) s)
       \<lparr>messages := messages (capture_name (trim (input_value s)) s) @
          [\<lparr>role = User, content = JStr (trim (input_value s))\<rparr>],
        input_value := [], input_disabled := False, input_focused := True,
        chatWindow := remove_first is_latest_question (chatWindow s) @
          [Message (js ''user'') (Some lbl) (JStr (trim (input_value s))),
           LatestQuestion (js ''Latest question: '' @ trim (input_value s)),
           Message (js ''ai'') None (JStr (js ''Error: '' @ message err))],
        fetch_calls := fetch_calls s @
          (if OPENAI_KEY_PRESENT key
           then [completion_request key
                   ((capture_name (trim (input_value s)) s)
                      \<lparr>messages := messages (capture_name (trim (input_value s)) s) @
                         [\<lparr>role = User, content = JStr (trim (input_value s))\<rparr>]\<rparr>)]
           else []),
        console_errors := console_errors s @ [err]\<rparr>"
proof -
  define inp where "inp = trim (input_value s)"
  define c where "c = capture_name inp s"
  obtain th1 s1 where bc: "begin_cycle inp c = (th1, s1)"
    by (cases "begin_cycle inp c")
  obtain r s2 where tb: "try_block key net th1 s1 = (r, s2)"
    by (cases "try_block key net th1 s1")
  have "fst (try_block key net th1 s1) = Inl err"
    using thr try_block_result [of key net th1 s1 th s0] by simp
  with tb have r: "r = Inl err" by simp
  have sub: "submit key net s = finally_block (catch_block err th1 s2)"
    using ne bc tb r by (simp add: submit_def inp_def c_def)
  have bc1: "th1 = Suc (Suc (length (remove_first is_latest_question (chatWindow s))))"
    and bc2: "s1 = c
      \<lparr>messages := messages c @ [\<lparr>role = User, content = JStr inp\<rparr>],
       input_value := [], input_disabled := True,
       chatWindow := remove_first is_latest_question (chatWindow s) @
         [Message (js ''user'')
            (Some (case userName c of None \<Rightarrow> js ''You''
                   | Some n \<Rightarrow> if n = [] then js ''You'' else n)) (JStr inp),
          LatestQuestion (js ''Latest question: '' @ inp), Thinking]\<rparr>"
    using bc unfolding begin_cycle_eq by (simp_all add: c_def)
  have cb: "catch_block err th1 s2 =
      s1\<lparr>fetch_calls := fetch_calls s1 @
          (if OPENAI_KEY_PRESENT key then [completion_request key s1] else []),
        chatWindow := (remove_first is_latest_question (chatWindow s) @
         [Message (js ''user'')
            (Some (case userName c of None \<Rightarrow> js ''You''
                   | Some n \<Rightarrow> if n = [] then js ''You'' else n)) (JStr inp),
          LatestQuestion (js ''Latest question: '' @ inp)]) @
         [Message (js ''ai'') None (JStr (js ''Error: '' @ message err))],
        console_errors := console_errors s1 @ [err]\<rparr>"
    by (rule try_then_catch [OF tb [unfolded r]]) (simp_all add: bc1 bc2)
  show ?thesis
    unfolding sub cb unfolding bc2
    by (rule exI [where x = "case userName c of None \<Rightarrow> js ''You''
                   | Some n \<Rightarrow> if n = [] then js ''You'' else n"])
      (simp add: finally_block_def completion_request_def c_def inp_def)
qed

lemma submit_return:
  assumes ne: "trim (input_value s) \<noteq> []"
    and ret: "fst (try_block key net th s0) = Inr u"
  shows "\<exists>lbl resp data aiContent.
     OPENAI_KEY_PRESENT key \<and> net = Resolved resp \<and> resp_ok resp \<and>
     resp_json resp = Inr data \<and> first_choice_content data = Some aiContent \<and>
     truthy aiContent \<and> \<not> to_string_throws aiContent \<and>
     submit key net s =
     (capture_name (trim (input_value s)) s)
       \<lparr>messages := messages (capture_name (trim (input_value s)) s) @
          [\<lparr>role = User, content = JStr (trim (input_value s))\<rparr>,
           \<lparr>role = Assistant, content = aiContent\<rparr>],
        input_value := [], input_disabled := False, input_focused := True,
        chatWindow := remove_first is_latest_question (chatWindow s) @
          [Message (js ''user'') (Some lbl) (JStr (trim (input_value s))),
           LatestQuestion (js ''Latest question: '' @ trim (input_value s)),
           Message (js ''ai'') None aiContent],
        fetch_calls := fetch_calls s @
          [completion_request key
             ((capture_name (trim (input_value s)) s)
                \<lparr>messages := messages (capture_name (trim (input_value s)) s) @
                   [\<lparr>role = User, content = JStr (trim (input_value s))\<rparr>]\<rparr>)]\<rparr>"
proof -
  define inp where "inp = trim (input_value s)"
  define c where "c = capture_name inp s"
  define lbl where "lbl = (case userName c of None \<Rightarrow> js ''You''
                   | Some n \<Rightarrow> if n = [] then js ''You'' else n)"
  define w where "w = remove_first is_latest_question (chatWindow s) @
         [Message (js ''user'') (Some lbl) (JStr inp),
          LatestQuestion (js ''Latest question: '' @ inp)]"
  obtain th1 s1 where bc: "begin_cycle inp c = (th1, s1)"
    by (cases "begin_cycle inp c")
  obtain r s2 where tb: "try_block key net th1 s1 = (r, s2)"
    by (cases "try_block key net th1 s1")
  have "fst (try_block key net th1 s1) = Inr u"
    using ret try_block_result [of key net th1 s1 th s0] by simp
  with tb have r: "r = Inr u" by simp
  have bc1: "th1 = length w"
    and bc2: "s1 = c
      \<lparr>messages := messages c @ [\<lparr>role = User, content = JStr inp\<rparr>],
       input_value := [], input_disabled := True,
       chatWindow := w @ [Thinking]\<rparr>"
    using bc unfolding begin_cycle_eq by (simp_all add: c_def w_def lbl_def)
  from try_block_return [OF tb [unfolded r]]
  obtain resp data aiContent where p: "OPENAI_KEY_PRESENT key"
    and n: "net = Resolved resp" "resp_ok resp" "resp_json resp = Inr data"
      "first_choice_content data = Some aiContent" "truthy aiContent"
      "\<not> to_string_throws aiContent"
    and s2: "s2 = s1\<lparr>fetch_calls := fetch_calls s1 @ [completion_request key s1],
               chatWindow := remove_at th1 (chatWindow s1) @ [Message (js ''ai'') None aiContent],
               messages := messages s1 @ [\<lparr>role = Assistant, content = aiContent\<rparr>]\<rparr>"
    by blast
  have sub: "submit key net s = finally_block s2"
    using ne bc tb r by (simp add: submit_def inp_def c_def)
  have "submit key net s = c
       \<lparr>messages := messages c @
          [\<lparr>role = User, content = JStr inp\<rparr>, \<lparr>role = Assistant, content = aiContent\<rparr>],
        input_value := [], input_disabled := False, input_focused := True,
        chatWindow := remove_first is_latest_question (chatWindow s) @
          [Message (js ''user'') (Some lbl) (JStr inp),
           LatestQuestion (js ''Latest question: '' @ inp),
           Message (js ''ai'') None aiContent],
        fetch_calls := fetch_calls s @
          [completion_request key
             (c\<lparr>messages := messages c @ [\<lparr>role = User, content = JStr inp\<rparr>]\<rparr>)]\<rparr>"
    unfolding sub s2 bc2 bc1
    by (simp add: finally_block_def completion_request_def remove_at_last)
      (simp add: c_def w_def)
  with p n show ?thesis
    unfolding c_def inp_def by blast
qed

lemma messages_submit:
  assumes "trim (input_value s) \<noteq> []"
  shows "\<exists>post. messages (submit key net s) =
           messages (capture_name (trim (input_value s)) s) @
             [\<lparr>role = User, content = JStr (trim (input_value s))\<rparr>] @ post \<and>
           (post = [] \<or> (\<exists>c. truthy c \<and> post = [\<lparr>role = Assistant, content = c\<rparr>]))"
proof (cases rule: try_block_cases [of key net 0 s])
  case (throw err)
  from submit_throw [OF assms throw] show ?thesis
    by auto
next
  case return
  from submit_return [OF assms return] show ?thesis
    by auto
qed

lemma fetch_calls_submit:
  assumes "trim (input_value s) \<noteq> []"
  shows "fetch_calls (submit key net s) = fetch_calls s @
          (if OPENAI_KEY_PRESENT key
           then [completion_request key
                   ((capture_name (trim (input_value s)) s)
                      \<lparr>messages := messages (capture_name (trim (input_value s)) s) @
                         [\<lparr>role = User, content = JStr (trim (input_value s))\<rparr>]\<rparr>)]
           else [])"
proof (cases rule: try_block_cases [of key net 0 s])
  case (throw err)
  from submit_throw [OF assms throw] show ?thesis
    by auto
next
  case return
  from submit_return [OF assms return] show ?thesis
    by auto
qed

lemma input_submit:
  assumes "trim (input_value s) \<noteq> []"
  shows "\<not> input_disabled (submit key net s) \<and> input_focused (submit key net s) \<and>
         input_value (submit key net s) = []"
proof (cases rule: try_block_cases [of key net 0 s])
  case (throw err)
  from submit_throw [OF assms throw] show ?thesis
    by auto
next
  case return
  from submit_return [OF assms return] show ?thesis
    by auto
qed

lemma prefix_messages_submit: "prefix (messages s) (messages (submit key net s))"
proof (cases "trim (input_value s) = []")
  case True
  then show ?thesis by (simp add: submit_def)
next
  case False
  from messages_submit [OF False, of key net] messages_capture_name [of "trim (input_value s)" s]
  show ?thesis
    by (auto simp add: prefix_def)
qed

lemma appended_assistant_truthy:
  "\<forall>t\<in>set (drop (length (messages s)) (messages (submit key net s))).
     role t = Assistant \<longrightarrow> truthy (content t)"
proof (cases "trim (input_value s) = []")
  case True
  then show ?thesis by (simp add: submit_def)
next
  case False
  from messages_submit [OF False, of key net] messages_capture_name [of "trim (input_value s)" s]
  show ?thesis
    by auto
qed

subsection \<open>Sessions\<close>

lemma messages_init_state:
  "messages init_state =
     [\<lparr>role = System, content = JStr SYSTEM_PROMPT\<rparr>,
      \<lparr>role = Assistant, content = JStr initialText\<rparr>]"
  by (simp add: init_state_def Let_def appendMessage_def)

lemma run_append: "run key (evs @ evs') s = run key evs' (run key evs s)"
  by (induction evs arbitrary: s) auto

lemma prefix_messages_run: "prefix (messages s) (messages (run key evs s))"
proof (induction evs arbitrary: s)
  case Nil
  show ?case by simp
next
  case (Cons ev evs)
  obtain raw net where ev: "ev = (raw, net)" by (cases ev)
  have "prefix (messages (s\<lparr>input_value := raw\<rparr>)) (messages (submit key net (s\<lparr>input_value := raw\<rparr>)))"
    by (rule prefix_messages_submit)
  with Cons [of "submit key net (s\<lparr>input_value := raw\<rparr>)"] show ?case
    unfolding ev by (auto intro: prefix_order.trans)
qed

subsection \<open>Decimal numerals\<close>

text \<open>
  \<open>number_to_string n\<close> is the decimal numeral of \<open>n\<close>: digits only, with the value
  \<open>n\<close>, and with a leading zero for zero alone.
\<close>

lemma unat_digit: "d < 10 \<Longrightarrow> unat (of_nat (48 + d) :: jschar) = 48 + d"
  by (simp only: unat_of_nat) simp

lemma is_digit_of_nat: "d < 10 \<Longrightarrow> is_digit (of_nat (48 + d))"
  unfolding is_digit_def
  by (simp add: word_le_nat_alt unat_digit del: of_nat_add)

lemma digits_number_to_string: "list_all is_digit (number_to_string n)"
proof (induction n rule: number_to_string.induct)
  case (1 n)
  show ?case
  proof (cases "n < 10")
    case True
    then show ?thesis
      by (subst number_to_string.simps) (simp add: is_digit_of_nat del: of_nat_add)
  next
    case False
    with 1 show ?thesis
      by (subst number_to_string.simps) (simp add: is_digit_of_nat del: of_nat_add)
  qed
qed

lemma decimal_value_snoc: "decimal_value (s @ [c]) = 10 * decimal_value s + (unat c - 48)"
  by (simp add: decimal_value_def)

lemma decimal_value_number_to_string: "decimal_value (number_to_string n) = n"
proof (induction n rule: number_to_string.induct)
  case (1 n)
  show ?case
  proof (cases "n < 10")
    case True
    then have "number_to_string n = [of_nat (48 + n)]"
      by (subst number_to_string.simps) simp
    with True show ?thesis
      by (simp add: decimal_value_def unat_digit del: of_nat_add)
  next
    case False
    then have "number_to_string n = number_to_string (n div 10) @ [of_nat (48 + n mod 10)]"
      by (subst number_to_string.simps) simp
    with False 1 show ?thesis
      by (simp add: decimal_value_snoc unat_digit del: of_nat_add)
  qed
qed

lemma number_to_string_not_Nil: "number_to_string n \<noteq> []"
  by (subst number_to_string.simps) simp

lemma hd_number_to_string: "(hd (number_to_string n) = 0x30) = (n = 0)"
proof (induction n rule: number_to_string.induct)
  case (1 n)
  show ?case
  proof (cases "n < 10")
    case True
    then have e: "number_to_string n = [of_nat (48 + n)]"
      by (subst number_to_string.simps) simp
    have "(of_nat (48 + n) :: jschar) = 0x30 \<longleftrightarrow> unat (of_nat (48 + n) :: jschar) = unat (0x30 :: jschar)"
      by (simp only: word_unat_eq_iff)
    with True show ?thesis
      unfolding e by (simp add: unat_digit del: of_nat_add)
  next
    case False
    then have e: "number_to_string n = number_to_string (n div 10) @ [of_nat (48 + n mod 10)]"
      by (subst number_to_string.simps) simp
    from False have "n div 10 \<noteq> 0" by simp
    with False 1 show ?thesis
      unfolding e by (simp add: number_to_string_not_Nil)
  qed
qed

subsection \<open>Inputs used as examples\<close>

lemma trim_Hi: "trim (js ''Hi'') = js ''Hi''"
  by (simp add: trim_def js_def is_js_space_def)

lemma trim_Hi2: "trim (input_value (init_state\<lparr>input_value := js ''Hi''\<rparr>)) \<noteq> []"
  by (simp add: trim_Hi) (simp add: js_def)

lemma key_present_sk: "OPENAI_KEY_PRESENT (Some (js ''sk-test''))"
  by (simp add: OPENAI_KEY_PRESENT_def js_def)

lemma match_Hi: "string_match (js ''Hi'') name_regex = None"
  by code_simp

lemma number_to_string_500: "number_to_string 500 = js ''500''"
  by code_simp

lemma match_Alex:
  "string_match (js ''My name is Alex, what shampoo should I use?'') name_regex =
     Some (js ''My name is Alex'', Some (js ''Alex''))"
  by code_simp

lemma trim_Alex:
  "trim (js ''My name is Alex, what shampoo should I use?'') =
     js ''My name is Alex, what shampoo should I use?''"
  by code_simp

lemma match_tired:
  "string_match (js ''i am tired of frizzy hair'') name_regex =
     Some (js ''i am tired'', Some (js ''tired''))"
  by code_simp

lemma trim_tired: "trim (js ''i am tired of frizzy hair'') = js ''i am tired of frizzy hair''"
  by code_simp

subsection \<open>The claims\<close>

text \<open>
  Claim C1, as amended. When a submission ends in failure, that is when the body
  of \<^verbatim>\<open>try\<close> throws (no key, \<^verbatim>\<open>fetch\<close> rejects, a non-success status, a
  body that cannot be read, no usable content, or a content that does not
  convert to a string; see \<open>try_block_throw_iff\<close>),
  no turn is appended to the transcript after the user turn of the submission.
  The description of the error is shown once, as the text \<^verbatim>\<open>Error: ...\<close> of an
  assistant-styled message appended to the chat window after the user's message
  and the latest-question line.
\<close>

theorem failure_shows_error_without_turn:
  assumes "trim (input_value s) \<noteq> []" and "fst (try_block key net th s0) = Inl err"
  shows "messages (submit key net s) =
           messages (capture_name (trim (input_value s)) s) @
             [\<lparr>role = User, content = JStr (trim (input_value s))\<rparr>] \<and>
         (\<exists>lbl. chatWindow (submit key net s) =
            remove_first is_latest_question (chatWindow s) @
              [Message (js ''user'') (Some lbl) (JStr (trim (input_value s))),
               LatestQuestion (js ''Latest question: '' @ trim (input_value s)),
               Message (js ''ai'') None (JStr (js ''Error: '' @ message err))])"
  using submit_throw [OF assms] by auto

theorem failure_shows_error_without_turn_witness:
  "trim (input_value (init_state\<lparr>input_value := js ''Hi''\<rparr>)) \<noteq> [] \<and>
   fst (try_block (Some (js ''sk-test'')) (Rejected (Error (js ''Failed to fetch''))) 0 init_state) =
     Inl (Error (js ''Failed to fetch'')) \<and>
   messages (submit (Some (js ''sk-test'')) (Rejected (Error (js ''Failed to fetch'')))
     (init_state\<lparr>input_value := js ''Hi''\<rparr>)) =
   messages init_state @ [\<lparr>role = User, content = JStr (js ''Hi'')\<rparr>]"
proof -
  let ?s = "init_state\<lparr>input_value := js ''Hi''\<rparr>"
  have h2: "fst (try_block (Some (js ''sk-test'')) (Rejected (Error (js ''Failed to fetch''))) 0 init_state) =
     Inl (Error (js ''Failed to fetch''))"
    using key_present_sk by (simp add: try_block_throw_iff)
  have c: "capture_name (js ''Hi'') ?s = ?s"
    by (simp add: capture_name_def match_Hi)
  show ?thesis
    using trim_Hi2 h2 failure_shows_error_without_turn [OF trim_Hi2 h2]
    by (simp add: trim_Hi c)
qed

text \<open>
  The claim as it was stated, with an assistant turn appended to the transcript,
  fails: without a key the submission of \<^verbatim>\<open>Hi\<close> in the initial state throws, and
  the transcript ends with the user turn.
\<close>

theorem failure_turn_counterexample:
  "fst (try_block None (Rejected (Error [])) 0 (init_state\<lparr>input_value := js ''Hi''\<rparr>)) =
     Inl (Error (js ''OpenAI API key not found. Create secrets.js and define OPENAI_API_KEY.'')) \<and>
   messages (submit None (Rejected (Error [])) (init_state\<lparr>input_value := js ''Hi''\<rparr>)) =
     [\<lparr>role = System, content = JStr SYSTEM_PROMPT\<rparr>,
      \<lparr>role = Assistant, content = JStr initialText\<rparr>,
      \<lparr>role = User, content = JStr (js ''Hi'')\<rparr>] \<and>
   role (last (messages (submit None (Rejected (Error [])) (init_state\<lparr>input_value := js ''Hi''\<rparr>)))) \<noteq>
     Assistant"
proof -
  let ?s = "init_state\<lparr>input_value := js ''Hi''\<rparr>"
  have thr: "fst (try_block None (Rejected (Error [])) 0 ?s) =
     Inl (Error (js ''OpenAI API key not found. Create secrets.js and define OPENAI_API_KEY.''))"
    by (simp add: try_block_def OPENAI_KEY_PRESENT_def)
  have c: "capture_name (js ''Hi'') ?s = ?s"
    by (simp add: capture_name_def match_Hi)
  from submit_throw [OF trim_Hi2 thr]
  have "messages (submit None (Rejected (Error [])) ?s) =
     [\<lparr>role = System, content = JStr SYSTEM_PROMPT\<rparr>,
      \<lparr>role = Assistant, content = JStr initialText\<rparr>,
      \<lparr>role = User, content = JStr (js ''Hi'')\<rparr>]"
    by (auto simp add: trim_Hi c messages_init_state)
  with thr show ?thesis
    by simp
qed

text \<open>
  Claim C2. When the input is empty after trimming (whitespace only included), the
  submit handler changes nothing: no turn of any role is appended to the
  transcript and \<^verbatim>\<open>fetch\<close> is not called.
\<close>

theorem submit_empty_input_noop:
  assumes "trim (input_value s) = []"
  shows "submit key net s = s \<and> messages (submit key net s) = messages s \<and>
         fetch_calls (submit key net s) = fetch_calls s"
  using assms by (simp add: submit_def)

theorem submit_empty_input_noop_witness:
  "trim (input_value (init_state\<lparr>input_value := js ''  ''\<rparr>)) = [] \<and>
   submit (Some (js ''sk-test'')) (Rejected (Error [])) (init_state\<lparr>input_value := js ''  ''\<rparr>) =
     init_state\<lparr>input_value := js ''  ''\<rparr>"
proof -
  have h: "trim (input_value (init_state\<lparr>input_value := js ''  ''\<rparr>)) = []"
    by (simp add: trim_def js_def is_js_space_def)
  show ?thesis
    using h submit_empty_input_noop [OF h] by simp
qed

text \<open>
  Claim C3. When the trimmed input matches the pattern of the name heuristic,
  capture group 1 holds a name \<open>X\<close>, and the submission appends the system turn
  \<^verbatim>\<open>User's name is X.\<close> and directly after it the user turn; what follows the
  user turn is nothing or one assistant turn, so the submission appends exactly
  one system turn.
\<close>

theorem name_turn_before_user_turn:
  assumes "string_match (trim (input_value s)) name_regex = Some nameMatch"
  shows "\<exists>X post. snd nameMatch = Some X \<and>
           messages (submit key net s) = messages s @
             [\<lparr>role = System, content = JStr (js ''User's name is '' @ X @ js ''.'')\<rparr>,
              \<lparr>role = User, content = JStr (trim (input_value s))\<rparr>] @ post \<and>
           (post = [] \<or> (\<exists>c. post = [\<lparr>role = Assistant, content = c\<rparr>]))"
proof -
  from string_match_name_captures [OF assms] obtain X where X: "snd nameMatch = Some X"
    by blast
  have ne: "trim (input_value s) \<noteq> []"
    using assms string_match_empty by auto
  have "messages (capture_name (trim (input_value s)) s) = messages s @
      [\<lparr>role = System, content = JStr (js ''User's name is '' @ X @ js ''.'')\<rparr>]"
    using assms X by (simp add: capture_name_def template_value_def)
  with messages_submit [OF ne, of key net] X show ?thesis
    by auto
qed

theorem name_turn_before_user_turn_witness:
  "string_match (trim (input_value
       (init_state\<lparr>input_value := js ''My name is Alex, what shampoo should I use?''\<rparr>)))
     name_regex = Some (js ''My name is Alex'', Some (js ''Alex'')) \<and>
   (\<exists>post. messages (submit None (Rejected (Error []))
       (init_state\<lparr>input_value := js ''My name is Alex, what shampoo should I use?''\<rparr>)) =
     messages init_state @
       [\<lparr>role = System, content = JStr (js ''User's name is Alex.'')\<rparr>,
        \<lparr>role = User, content = JStr (js ''My name is Alex, what shampoo should I use?'')\<rparr>] @ post)"
proof -
  let ?s = "init_state\<lparr>input_value := js ''My name is Alex, what shampoo should I use?''\<rparr>"
  have h: "string_match (trim (input_value ?s)) name_regex =
      Some (js ''My name is Alex'', Some (js ''Alex''))"
    by (simp add: trim_Alex match_Alex)
  have i: "trim (input_value ?s) = js ''My name is Alex, what shampoo should I use?''"
    by (simp add: trim_Alex)
  show ?thesis
    using h name_turn_before_user_turn [OF h, of None "Rejected (Error [])"]
    unfolding i by (auto simp add: js_def)
qed

text \<open>
  Claim C4 says that no name is recorded when the word after the phrase is not
  capitalized. The pattern carries the \<^verbatim>\<open>i\<close> flag, which also applies to
  \<^verbatim>\<open>[A-Z][a-z]+\<close>: on the input \<^verbatim>\<open>i am tired of frizzy hair\<close> the handler
  records the name \<^verbatim>\<open>tired\<close> and injects the system turn for it.
\<close>

theorem lowercase_word_recorded_as_name:
  "string_match (trim (input_value (init_state\<lparr>input_value := js ''i am tired of frizzy hair''\<rparr>)))
     name_regex = Some (js ''i am tired'', Some (js ''tired'')) \<and>
   userName (submit None (Rejected (Error []))
     (init_state\<lparr>input_value := js ''i am tired of frizzy hair''\<rparr>)) = Some (js ''tired'') \<and>
   messages (submit None (Rejected (Error []))
     (init_state\<lparr>input_value := js ''i am tired of frizzy hair''\<rparr>)) =
     messages init_state @
       [\<lparr>role = System, content = JStr (js ''User's name is tired.'')\<rparr>,
        \<lparr>role = User, content = JStr (js ''i am tired of frizzy hair'')\<rparr>]"
proof -
  let ?s = "init_state\<lparr>input_value := js ''i am tired of frizzy hair''\<rparr>"
  have i: "trim (input_value ?s) = js ''i am tired of frizzy hair''"
    by (simp add: trim_tired)
  have ne: "trim (input_value ?s) \<noteq> []"
    unfolding i by (simp add: js_def)
  have thr: "fst (try_block None (Rejected (Error [])) 0 ?s) =
     Inl (Error (js ''OpenAI API key not found. Create secrets.js and define OPENAI_API_KEY.''))"
    by (simp add: try_block_def OPENAI_KEY_PRESENT_def)
  have c: "capture_name (js ''i am tired of frizzy hair'') ?s =
      ?s\<lparr>userName := Some (js ''tired''),
         messages := messages init_state @
           [\<lparr>role = System, content = JStr (js ''User's name is tired.'')\<rparr>]\<rparr>"
    by (simp add: capture_name_def match_tired template_value_def) (simp add: js_def)
  from submit_throw [OF ne thr] show ?thesis
    unfolding i c by (auto simp add: match_tired)
qed

text \<open>
  Claim C5. Without a credential, a submit of a non-empty input does not call
  \<^verbatim>\<open>fetch\<close>; the user turn is appended (last in the transcript), and the
  failure path shows the message about the missing key.
\<close>

theorem missing_credential_no_network:
  assumes "\<not> OPENAI_KEY_PRESENT key" and "trim (input_value s) \<noteq> []"
  shows "fetch_calls (submit key net s) = fetch_calls s \<and>
         messages (submit key net s) =
           messages (capture_name (trim (input_value s)) s) @
             [\<lparr>role = User, content = JStr (trim (input_value s))\<rparr>] \<and>
         (\<exists>w. chatWindow (submit key net s) =
            w @ [Message (js ''ai'') None (JStr (js
              ''Error: OpenAI API key not found. Create secrets.js and define OPENAI_API_KEY.''))])"
proof -
  have thr: "fst (try_block key net 0 s) =
     Inl (Error (js ''OpenAI API key not found. Create secrets.js and define OPENAI_API_KEY.''))"
    using assms(1) by (rule missing_key_throws)
  from submit_throw [OF assms(2) thr]
  obtain lbl where "submit key net s =
     (capture_name (trim (input_value s)) s)
       \<lparr>messages := messages (capture_name (trim (input_value s)) s) @
          [\<lparr>role = User, content = JStr (trim (input_value s))\<rparr>],
        input_value := [], input_disabled := False, input_focused := True,
        chatWindow := remove_first is_latest_question (chatWindow s) @
          [Message (js ''user'') (Some lbl) (JStr (trim (input_value s))),
           LatestQuestion (js ''Latest question: '' @ trim (input_value s)),
           Message (js ''ai'') None (JStr (js ''Error: '' @ message (Error (js
              ''OpenAI API key not found. Create secrets.js and define OPENAI_API_KEY.''))))],
        fetch_calls := fetch_calls s @ [],
        console_errors := console_errors s @ [Error (js
              ''OpenAI API key not found. Create secrets.js and define OPENAI_API_KEY.'')]\<rparr>"
    using assms(1) by auto
  then show ?thesis
    by (simp add: js_def)
qed

theorem missing_credential_no_network_witness:
  "\<not> OPENAI_KEY_PRESENT None \<and> trim (input_value (init_state\<lparr>input_value := js ''Hi''\<rparr>)) \<noteq> [] \<and>
   fetch_calls (submit None (Rejected (Error [])) (init_state\<lparr>input_value := js ''Hi''\<rparr>)) =
     fetch_calls (init_state\<lparr>input_value := js ''Hi''\<rparr>)"
proof -
  have h1: "\<not> OPENAI_KEY_PRESENT None"
    by (simp add: OPENAI_KEY_PRESENT_def)
  have h2: "trim (input_value (init_state\<lparr>input_value := js ''Hi''\<rparr>)) \<noteq> []"
    by (simp add: trim_Hi) (simp add: js_def)
  show ?thesis
    using h1 h2 missing_credential_no_network [OF h1 h2, of "Rejected (Error [])"] by simp
qed

text \<open>
  Claim C6, as amended. When the response has a non-success status and its body
  text is read as \<open>errText\<close>, the error message shown for the submission is
  \<^verbatim>\<open>Error: API error: \<close>, the status code, a space and \<open>errText\<close>; so it contains
  the status code and the body text. The status code is written as its decimal
  numeral. When reading the body fails, the message shown is \<^verbatim>\<open>Error: \<close> and the
  description of that failure.
\<close>

theorem non_success_status_message:
  assumes "OPENAI_KEY_PRESENT key" and "trim (input_value s) \<noteq> []" and "\<not> resp_ok resp"
  shows "\<exists>w m. chatWindow (submit key (Resolved resp) s) = w @ [Message (js ''ai'') None (JStr m)] \<and>
           (\<forall>errText. resp_text resp = Inr errText \<longrightarrow>
              m = js ''Error: API error: '' @ number_to_string (resp_status resp) @
                  js '' '' @ errText \<and>
              sublist (number_to_string (resp_status resp)) m \<and> sublist errText m) \<and>
           (\<forall>err. resp_text resp = Inl err \<longrightarrow> m = js ''Error: '' @ message err) \<and>
           list_all is_digit (number_to_string (resp_status resp)) \<and>
           decimal_value (number_to_string (resp_status resp)) = resp_status resp \<and>
           (hd (number_to_string (resp_status resp)) = 0x30) = (resp_status resp = 0)"
proof (cases "resp_text resp")
  case (Inl err)
  have thr: "fst (try_block key (Resolved resp) 0 s) = Inl err"
    using assms(1,3) Inl by (simp add: try_block_throw_iff)
  from submit_throw [OF assms(2) thr]
  have "\<exists>w. chatWindow (submit key (Resolved resp) s) =
      w @ [Message (js ''ai'') None (JStr (js ''Error: '' @ message err))]"
    by auto
  with Inl show ?thesis
    by (auto simp add: digits_number_to_string decimal_value_number_to_string
        hd_number_to_string)
next
  case (Inr errText)
  let ?err = "Error (js ''API error: '' @ number_to_string (resp_status resp) @ js '' '' @ errText)"
  let ?m = "js ''Error: API error: '' @ number_to_string (resp_status resp) @ js '' '' @ errText"
  have thr: "fst (try_block key (Resolved resp) 0 s) = Inl ?err"
    using assms(1,3) Inr by (simp add: try_block_throw_iff)
  from submit_throw [OF assms(2) thr]
  have w: "\<exists>w. chatWindow (submit key (Resolved resp) s) = w @ [Message (js ''ai'') None (JStr ?m)]"
    by (auto simp add: js_def)
  have s1: "sublist (number_to_string (resp_status resp)) ?m"
    unfolding sublist_def by blast
  have s2: "sublist errText ?m"
    unfolding sublist_def
    by (rule exI [where x = "js ''Error: API error: '' @ number_to_string (resp_status resp) @ js '' ''"],
        rule exI [where x = "[]"]) simp
  from w obtain w0 where
    "chatWindow (submit key (Resolved resp) s) = w0 @ [Message (js ''ai'') None (JStr ?m)]"
    by blast
  with Inr s1 s2 show ?thesis
    by (intro exI [where x = w0] exI [where x = ?m])
      (simp add: digits_number_to_string decimal_value_number_to_string hd_number_to_string)
qed

theorem non_success_status_message_witness:
  "OPENAI_KEY_PRESENT (Some (js ''sk-test'')) \<and>
   trim (input_value (init_state\<lparr>input_value := js ''Hi''\<rparr>)) \<noteq> [] \<and>
   \<not> resp_ok \<lparr>resp_ok = False, resp_status = 500, resp_text = Inr (js ''server error''),
              resp_json = Inl (Error [])\<rparr> \<and>
   resp_text \<lparr>resp_ok = False, resp_status = 500, resp_text = Inr (js ''server error''),
              resp_json = Inl (Error [])\<rparr> = Inr (js ''server error'') \<and>
   (\<exists>w. chatWindow (submit (Some (js ''sk-test''))
        (Resolved \<lparr>resp_ok = False, resp_status = 500, resp_text = Inr (js ''server error''),
              resp_json = Inl (Error [])\<rparr>) (init_state\<lparr>input_value := js ''Hi''\<rparr>)) =
      w @ [Message (js ''ai'') None (JStr (js ''Error: API error: 500 server error''))]) \<and>
   resp_text \<lparr>resp_ok = False, resp_status = 404, resp_text = Inl (Error (js ''Failed to fetch'')),
              resp_json = Inl (Error [])\<rparr> = Inl (Error (js ''Failed to fetch'')) \<and>
   (\<exists>w. chatWindow (submit (Some (js ''sk-test''))
        (Resolved \<lparr>resp_ok = False, resp_status = 404, resp_text = Inl (Error (js ''Failed to fetch'')),
              resp_json = Inl (Error [])\<rparr>) (init_state\<lparr>input_value := js ''Hi''\<rparr>)) =
      w @ [Message (js ''ai'') None (JStr (js ''Error: Failed to fetch''))])"
proof -
  let ?r1 = "\<lparr>resp_ok = False, resp_status = 500, resp_text = Inr (js ''server error''),
              resp_json = Inl (Error [])\<rparr>"
  let ?r2 = "\<lparr>resp_ok = False, resp_status = 404, resp_text = Inl (Error (js ''Failed to fetch'')),
              resp_json = Inl (Error [])\<rparr>"
  let ?s = "init_state\<lparr>input_value := js ''Hi''\<rparr>"
  have h1: "\<not> resp_ok ?r1" by simp
  have h2: "\<not> resp_ok ?r2" by simp
  have t1: "resp_text ?r1 = Inr (js ''server error'')" by simp
  have t2: "resp_text ?r2 = Inl (Error (js ''Failed to fetch''))" by simp
  from non_success_status_message [OF key_present_sk trim_Hi2 h1]
  obtain w1 m1 where
    "chatWindow (submit (Some (js ''sk-test'')) (Resolved ?r1) ?s) =
       w1 @ [Message (js ''ai'') None (JStr m1)]"
    and "\<forall>errText. resp_text ?r1 = Inr errText \<longrightarrow>
       m1 = js ''Error: API error: '' @ number_to_string (resp_status ?r1) @ js '' '' @ errText \<and>
       sublist (number_to_string (resp_status ?r1)) m1 \<and> sublist errText m1"
    by blast
  then have a: "\<exists>w. chatWindow (submit (Some (js ''sk-test'')) (Resolved ?r1) ?s) =
      w @ [Message (js ''ai'') None (JStr (js ''Error: API error: 500 server error''))]"
    by (simp add: number_to_string_500 js_def)
  from non_success_status_message [OF key_present_sk trim_Hi2 h2]
  obtain w2 m2 where
    "chatWindow (submit (Some (js ''sk-test'')) (Resolved ?r2) ?s) =
       w2 @ [Message (js ''ai'') None (JStr m2)]"
    and "\<forall>err. resp_text ?r2 = Inl err \<longrightarrow> m2 = js ''Error: '' @ message err"
    by blast
  then have b: "\<exists>w. chatWindow (submit (Some (js ''sk-test'')) (Resolved ?r2) ?s) =
      w @ [Message (js ''ai'') None (JStr (js ''Error: Failed to fetch''))]"
    by (simp add: js_def)
  from key_present_sk trim_Hi2 h1 t1 t2 a b show ?thesis
    by blast
qed

text \<open>
  The claim as it was stated, for every response with a non-success status,
  fails when the body cannot be read: for a status 500 whose \<^verbatim>\<open>text()\<close> rejects
  with \<^verbatim>\<open>network error\<close>, the message shown is \<^verbatim>\<open>Error: network error\<close>, which
  does not contain the status code.
\<close>

theorem non_success_status_counterexample:
  "\<not> resp_ok \<lparr>resp_ok = False, resp_status = 500, resp_text = Inl (Error (js ''network error'')),
              resp_json = Inl (Error (js ''network error''))\<rparr> \<and>
   last (chatWindow (submit (Some (js ''sk-test''))
        (Resolved \<lparr>resp_ok = False, resp_status = 500,
              resp_text = Inl (Error (js ''network error'')),
              resp_json = Inl (Error (js ''network error''))\<rparr>)
        (init_state\<lparr>input_value := js ''Hi''\<rparr>))) =
     Message (js ''ai'') None (JStr (js ''Error: network error'')) \<and>
   \<not> sublist (number_to_string 500) (js ''Error: network error'')"
proof -
  let ?r = "\<lparr>resp_ok = False, resp_status = 500, resp_text = Inl (Error (js ''network error'')),
              resp_json = Inl (Error (js ''network error''))\<rparr>"
  let ?s = "init_state\<lparr>input_value := js ''Hi''\<rparr>"
  have thr: "fst (try_block (Some (js ''sk-test'')) (Resolved ?r) 0 ?s) =
      Inl (Error (js ''network error''))"
    using key_present_sk by (simp add: try_block_throw_iff)
  from submit_throw [OF trim_Hi2 thr]
  have "last (chatWindow (submit (Some (js ''sk-test'')) (Resolved ?r) ?s)) =
      Message (js ''ai'') None (JStr (js ''Error: network error''))"
    by (auto simp add: js_def)
  moreover have "\<not> sublist (number_to_string 500) (js ''Error: network error'')"
    by code_simp
  ultimately show ?thesis
    by simp
qed

text \<open>
  Claim C7. In every state that a session reaches from the initial state, the
  turn at index 0 is the system turn with the fixed instruction; a submit only
  appends to the transcript, and so does every continuation of a session.
\<close>

theorem transcript_append_only:
  "messages (run key evs init_state) \<noteq> [] \<and>
   messages (run key evs init_state) ! 0 = \<lparr>role = System, content = JStr SYSTEM_PROMPT\<rparr> \<and>
   role (messages (run key evs init_state) ! 0) = System \<and>
   prefix (messages s) (messages (submit key net s)) \<and>
   prefix (messages (run key evs s)) (messages (run key (evs @ evs') s))"
proof -
  have "prefix (messages init_state) (messages (run key evs init_state))"
    by (rule prefix_messages_run)
  then obtain zs where "messages (run key evs init_state) = messages init_state @ zs"
    by (auto simp add: prefix_def)
  then have "messages (run key evs init_state) =
      \<lparr>role = System, content = JStr SYSTEM_PROMPT\<rparr> #
      \<lparr>role = Assistant, content = JStr initialText\<rparr> # zs"
    by (simp add: init_state_def Let_def appendMessage_def)
  then show ?thesis
    by (simp add: prefix_messages_submit run_append prefix_messages_run)
qed

text \<open>
  Claim C8. After a submit cycle with a non-empty input, whatever the remote
  service answered and whether or not a key is present, the input field is
  enabled again (and focused), and a following submit with a non-empty input is
  processed: its user turn is appended.
\<close>

theorem submit_restores_idle:
  assumes "trim (input_value s) \<noteq> []" and "trim raw \<noteq> []"
  shows "\<not> input_disabled (submit key net s) \<and> input_focused (submit key net s) \<and>
         (\<exists>pre post. messages (submit key net' ((submit key net s)\<lparr>input_value := raw\<rparr>)) =
            messages (submit key net s) @ pre @ [\<lparr>role = User, content = JStr (trim raw)\<rparr>] @ post)"
proof -
  let ?s' = "(submit key net s)\<lparr>input_value := raw\<rparr>"
  have ne: "trim (input_value ?s') \<noteq> []"
    using assms(2) by simp
  obtain pre where pre: "messages (capture_name (trim raw) ?s') = messages (submit key net s) @ pre"
    using messages_capture_name [of "trim raw" ?s'] by auto
  obtain post where "messages (submit key net' ?s') =
      messages (capture_name (trim raw) ?s') @ [\<lparr>role = User, content = JStr (trim raw)\<rparr>] @ post"
    using messages_submit [OF ne, of key net'] by auto
  then have "messages (submit key net' ?s') =
      messages (submit key net s) @ pre @ [\<lparr>role = User, content = JStr (trim raw)\<rparr>] @ post"
    by (simp add: pre)
  then have "\<exists>pre post. messages (submit key net' ?s') =
      messages (submit key net s) @ pre @ [\<lparr>role = User, content = JStr (trim raw)\<rparr>] @ post"
    by blast
  with input_submit [OF assms(1), of key net] show ?thesis
    by simp
qed

theorem submit_restores_idle_witness:
  "trim (input_value (init_state\<lparr>input_value := js ''Hi''\<rparr>)) \<noteq> [] \<and> trim (js ''Hi'') \<noteq> [] \<and>
   \<not> input_disabled (submit None (Rejected (Error [])) (init_state\<lparr>input_value := js ''Hi''\<rparr>))"
proof -
  have h2: "trim (js ''Hi'') \<noteq> []"
    by (simp add: trim_Hi) (simp add: js_def)
  show ?thesis
    using trim_Hi2 h2 submit_restores_idle [OF trim_Hi2 h2, of None "Rejected (Error [])"]
    by simp
qed

text \<open>
  Claim C9. With a key present, a submit of a non-empty input calls \<^verbatim>\<open>fetch\<close>
  exactly once, with the method POST and a body that holds the model
  \<^verbatim>\<open>gpt-4o\<close>, the cap 600 and the whole transcript at that moment: the turns
  held before, the injected system turn if there is one, and the user turn.
\<close>

theorem submit_issues_one_request:
  assumes "OPENAI_KEY_PRESENT key" and "trim (input_value s) \<noteq> []"
  shows "fetch_calls (submit key net s) = fetch_calls s @
           [\<lparr>req_url = js ''https://api.openai.com/v1/chat/completions'',
             req_method = js ''POST'',
             req_headers =
               [(js ''Content-Type'', js ''application/json''),
                (js ''Authorization'', js ''Bearer '' @ template_value key)],
             req_model = js ''gpt-4o'',
             req_messages = messages (capture_name (trim (input_value s)) s) @
               [\<lparr>role = User, content = JStr (trim (input_value s))\<rparr>],
             req_max_tokens = 600\<rparr>] \<and>
         prefix (messages s) (messages (capture_name (trim (input_value s)) s)) \<and>
         prefix (messages (capture_name (trim (input_value s)) s) @
                   [\<lparr>role = User, content = JStr (trim (input_value s))\<rparr>])
                (messages (submit key net s))"
proof -
  have "prefix (messages s) (messages (capture_name (trim (input_value s)) s))"
    using messages_capture_name [of "trim (input_value s)" s] by (auto simp add: prefix_def)
  moreover have "prefix (messages (capture_name (trim (input_value s)) s) @
                   [\<lparr>role = User, content = JStr (trim (input_value s))\<rparr>])
                (messages (submit key net s))"
    using messages_submit [OF assms(2), of key net] by (auto simp add: prefix_def)
  ultimately show ?thesis
    using fetch_calls_submit [OF assms(2), of key net] assms(1)
    by (simp add: completion_request_def)
qed

theorem submit_issues_one_request_witness:
  "OPENAI_KEY_PRESENT (Some (js ''sk-test'')) \<and>
   trim (input_value (init_state\<lparr>input_value := js ''Hi''\<rparr>)) \<noteq> [] \<and>
   map req_max_tokens
     (fetch_calls (submit (Some (js ''sk-test'')) (Rejected (Error []))
        (init_state\<lparr>input_value := js ''Hi''\<rparr>))) = [600]"
proof -
  have "fetch_calls init_state = []"
    by (simp add: init_state_def Let_def appendMessage_def)
  then show ?thesis
    using key_present_sk trim_Hi2
      submit_issues_one_request [OF key_present_sk trim_Hi2, of "Rejected (Error [])"]
    by simp
qed

text \<open>
  Claim C10. When the response is successful and the content of the first
  choice is falsy (the empty string, \<^verbatim>\<open>null\<close>, \<^verbatim>\<open>false\<close>, zero) or missing, the
  submission takes the failure path: nothing follows the user turn in the
  transcript and the message \<^verbatim>\<open>No content in API response.\<close> is shown. In any
  submission, an assistant turn that is appended has truthy content, so its
  content is never the empty string.
\<close>

theorem falsy_content_is_failure:
  assumes "OPENAI_KEY_PRESENT key" and "trim (input_value s) \<noteq> []"
    and "resp_ok resp" and "resp_json resp = Inr data"
    and "\<not> truthy_opt (first_choice_content data)"
  shows "messages (submit key (Resolved resp) s) =
           messages (capture_name (trim (input_value s)) s) @
             [\<lparr>role = User, content = JStr (trim (input_value s))\<rparr>] \<and>
         (\<exists>w. chatWindow (submit key (Resolved resp) s) =
            w @ [Message (js ''ai'') None (JStr (js ''Error: No content in API response.''))]) \<and>
         (\<forall>t\<in>set (drop (length (messages s')) (messages (submit key' net' s'))).
            role t = Assistant \<longrightarrow> truthy (content t) \<and> content t \<noteq> JStr [])"
proof -
  have thr: "fst (try_block key (Resolved resp) 0 s) = Inl (Error (js ''No content in API response.''))"
    using assms(1,3,4,5) by (simp add: try_block_throw_iff)
  from submit_throw [OF assms(2) thr]
  have "messages (submit key (Resolved resp) s) =
           messages (capture_name (trim (input_value s)) s) @
             [\<lparr>role = User, content = JStr (trim (input_value s))\<rparr>]"
    and "\<exists>w. chatWindow (submit key (Resolved resp) s) =
            w @ [Message (js ''ai'') None (JStr (js ''Error: No content in API response.''))]"
    by (auto simp add: js_def)
  moreover have "\<forall>t\<in>set (drop (length (messages s')) (messages (submit key' net' s'))).
            role t = Assistant \<longrightarrow> truthy (content t) \<and> content t \<noteq> JStr []"
    using appended_assistant_truthy [of s' key' net'] by auto
  ultimately show ?thesis
    by blast
qed

theorem falsy_content_is_failure_witness:
  "OPENAI_KEY_PRESENT (Some (js ''sk-test'')) \<and>
   trim (input_value (init_state\<lparr>input_value := js ''Hi''\<rparr>)) \<noteq> [] \<and>
   resp_ok \<lparr>resp_ok = True, resp_status = 200, resp_text = Inr [],
     resp_json = Inr (JObj [(js ''choices'',
       JArr [JObj [(js ''message'', JObj [(js ''content'', JStr [])])]])])\<rparr> \<and>
   \<not> truthy_opt (first_choice_content (JObj [(js ''choices'',
       JArr [JObj [(js ''message'', JObj [(js ''content'', JStr [])])]])])) \<and>
   messages (submit (Some (js ''sk-test''))
     (Resolved \<lparr>resp_ok = True, resp_status = 200, resp_text = Inr [],
        resp_json = Inr (JObj [(js ''choices'',
          JArr [JObj [(js ''message'', JObj [(js ''content'', JStr [])])]])])\<rparr>)
     (init_state\<lparr>input_value := js ''Hi''\<rparr>)) =
   messages init_state @ [\<lparr>role = User, content = JStr (js ''Hi'')\<rparr>] \<and>
   \<lparr>role = Assistant, content = JStr (js ''Hi there!'')\<rparr> \<in>
     set (drop (length (messages (init_state\<lparr>input_value := js ''Hi''\<rparr>)))
       (messages (submit (Some (js ''sk-test''))
         (Resolved \<lparr>resp_ok = True, resp_status = 200, resp_text = Inr [],
            resp_json = Inr (JObj [(js ''choices'',
              JArr [JObj [(js ''message'', JObj [(js ''content'', JStr (js ''Hi there!''))])]])])\<rparr>)
         (init_state\<lparr>input_value := js ''Hi''\<rparr>)))) \<and>
   truthy (JStr (js ''Hi there!''))"
proof -
  let ?data = "\<lambda>c. JObj [(js ''choices'',
       JArr [JObj [(js ''message'', JObj [(js ''content'', c)])]])]"
  let ?resp = "\<lambda>c. \<lparr>resp_ok = True, resp_status = 200, resp_text = Inr [],
     resp_json = Inr (?data c)\<rparr>"
  let ?s = "init_state\<lparr>input_value := js ''Hi''\<rparr>"
  have fc: "first_choice_content (?data c) = Some c" for c
    by (simp add: first_choice_content_def js_def)
  have h3: "resp_ok (?resp (JStr []))" by simp
  have h4: "resp_json (?resp (JStr [])) = Inr (?data (JStr []))" by simp
  have h5: "\<not> truthy_opt (first_choice_content (?data (JStr [])))"
    by (simp add: fc truthy_opt_def)
  have tr: "truthy (JStr (js ''Hi there!''))"
    by (simp add: js_def)
  have ret: "fst (try_block (Some (js ''sk-test'')) (Resolved (?resp (JStr (js ''Hi there!'')))) 0 ?s) = Inr ()"
    using key_present_sk tr by (simp add: try_block_def fc Let_def)
  have c: "capture_name (js ''Hi'') ?s = ?s"
    by (simp add: capture_name_def match_Hi)
  have ok: "messages (submit (Some (js ''sk-test'')) (Resolved (?resp (JStr (js ''Hi there!'')))) ?s) =
      messages ?s @ [\<lparr>role = User, content = JStr (js ''Hi'')\<rparr>,
                     \<lparr>role = Assistant, content = JStr (js ''Hi there!'')\<rparr>]"
    using submit_return [OF trim_Hi2 ret] by (auto simp add: trim_Hi c fc)
  from falsy_content_is_failure [OF key_present_sk trim_Hi2 h3 h4 h5]
  have "messages (submit (Some (js ''sk-test'')) (Resolved (?resp (JStr []))) ?s) =
      messages init_state @ [\<lparr>role = User, content = JStr (js ''Hi'')\<rparr>]"
    by (simp add: trim_Hi c)
  with key_present_sk trim_Hi2 h3 h5 ok tr show ?thesis
    by simp
qed

end
